theory Spec2Isabelle
  imports Main
begin

section \<open>Data model (types.ts)\<close>

datatype ImageSize = Size1K | Size2K | Size4K

datatype VideoFormat = LongForm | Shorts | Facebook

datatype LoadingState = Idle | OptimizingTitle | GeneratingImage | EditingImage

text \<open>
  The interface \<open>GeneratedImage\<close>. Its fields carry the prefix \<open>img_\<close> because \<open>id\<close> is a
  constant of HOL and \<open>prompt\<close> is also a state variable of the component.
\<close>

record GeneratedImage =
  img_id :: string
  img_data :: string
  img_mimeType :: string
  img_prompt :: string
  img_timestamp :: nat
  img_format :: VideoFormat

text \<open>An uploaded file as the component keeps it: \<open>{ name: string, data: string }\<close>.\<close>

record upload =
  file_name :: string
  file_data :: string

section \<open>JavaScript primitives used by the code\<close>

text \<open>
  Strings are lists of code units. The model's alphabet is \<open>char\<close> (code units up to
  \<open>0xFF\<close>), so the white space of \<open>String.prototype.trim\<close> is, within that alphabet:
  TAB, LF, VT, FF, CR, SPACE and NBSP.
\<close>

definition isWhiteSpace :: "char \<Rightarrow> bool" where
  "isWhiteSpace c =
     (c = CHR 0x09 \<or> c = CHR 0x0A \<or> c = CHR 0x0B \<or> c = CHR 0x0C \<or> c = CHR 0x0D
      \<or> c = CHR 0x20 \<or> c = CHR 0xA0)"

definition trim :: "string \<Rightarrow> string" where
  "trim s = rev (dropWhile isWhiteSpace (rev (dropWhile isWhiteSpace s)))"

text \<open>Truthiness of a string (\<open>if (title)\<close>) and of an optional string (\<open>if (headshot)\<close>):
  the empty string, \<open>null\<close> and \<open>undefined\<close> are falsy.\<close>

definition truthy :: "string \<Rightarrow> bool" where
  "truthy s = (s \<noteq> [])"

fun truthy_opt :: "string option \<Rightarrow> bool" where
  "truthy_opt None = False"
| "truthy_opt (Some s) = truthy s"

text \<open>Decimal rendering of a non-negative integer: \<open>n.toString()\<close> and \<open>`${n}`\<close>.\<close>

definition digitChar :: "nat \<Rightarrow> char" where
  "digitChar d = ''0123456789'' ! d"

fun toString :: "nat \<Rightarrow> string" where
  "toString n = (if n < 10 then [digitChar n] else toString (n div 10) @ [digitChar (n mod 10)])"

declare toString.simps [simp del]

text \<open>How a promise settles: resolved with a value, or rejected (the awaited call throws).\<close>

datatype 'a settled = Resolved 'a | Rejected

section \<open>The service layer: \<open>generateThumbnail\<close>\<close>

text \<open>A part of the request's \<open>contents\<close>: \<open>{ text }\<close> or \<open>{ inlineData: { mimeType, data } }\<close>.\<close>

datatype part = Text string | InlineData string string

text \<open>The argument of \<open>ai.models.generateContent\<close>.\<close>

record request =
  model :: string
  parts :: "part list"
  cfg_imageSize :: ImageSize
  cfg_aspectRatio :: string

definition isShorts :: "VideoFormat \<Rightarrow> bool" where
  "isShorts format = (format = Shorts)"

definition isFacebook :: "VideoFormat \<Rightarrow> bool" where
  "isFacebook format = (format = Facebook)"

text \<open>\<open>let aspectRatio = "16:9"; if (isShorts) ...; if (isFacebook) ...\<close>\<close>

definition aspectRatio :: "VideoFormat \<Rightarrow> string" where
  "aspectRatio format =
     (let a = ''16:9'';
          a = (if isShorts format then ''9:16'' else a);
          a = (if isFacebook format then ''1:1'' else a)
      in a)"

definition textPrompt :: "string \<Rightarrow> string \<Rightarrow> VideoFormat \<Rightarrow> string option \<Rightarrow> string" where
  "textPrompt prompt title format brandColors =
     (let t =
        (if isFacebook format then
           ''Create a high-quality image for a Facebook post.''
           @ (if truthy title
              then '' The headline or text overlay context is \"'' @ title @ ''\".'' else [])
           @ '' \<newline>\<newline>Story/Context: '' @ prompt
           @ '' \<newline>\<newline>Format: Square 1:1. Composition balanced for social feed.''
           @ '' \<newline>\<newline>Style: Natural, authentic, lifestyle photography or clean editorial graphic. Less aggressive than a YouTube thumbnail. Inviting, relatable, and story-driven.''
         else
           ''Create a high-quality YouTube '' @ (if isShorts format then ''Shorts'' else [])
           @ '' thumbnail.''
           @ (if truthy title
              then '' The video title is \"'' @ title
                   @ ''\". Include this text or related engaging typography in the thumbnail.''
              else [])
           @ '' \<newline>\<newline>Visual Description: '' @ prompt
           @ (if isShorts format
              then '' \<newline>\<newline>Format: Vertical 9:16. Composition must be centered and optimized for mobile full-screen viewing. Keep key visual elements within the safe zone (avoiding top/bottom UI areas). Bold, readable text.''
              else '' \<newline>\<newline>Format: Horizontal 16:9. Cinematic composition, rule of thirds.'')
           @ '' \<newline>\<newline>Style: High contrast, vibrant colors, expressive facial expressions (if people are present), clear focal point. Professional YouTuber style.'')
      in case brandColors of
           None \<Rightarrow> t
         | Some bc \<Rightarrow>
             (if truthy bc
              then t @ '' \<newline>\<newline>Color Palette: Use these specific brand colors: '' @ bc
                     @ ''. Ensure they are dominant or used as accents to maintain brand identity.''
              else t))"

text \<open>The two parts pushed for the headshot, when it is truthy.\<close>

definition headshotParts :: "VideoFormat \<Rightarrow> string option \<Rightarrow> part list" where
  "headshotParts format headshot =
     (case headshot of
        None \<Rightarrow> []
      | Some h \<Rightarrow>
          (if truthy h then
             (let subjectTerm = (if isFacebook format then ''image'' else ''thumbnail'')
              in [InlineData ''image/png'' h,
                  Text (''Use the person in this image as the main subject in the '' @ subjectTerm
                        @ ''. Integrate them naturally matching the lighting and style.'')])
           else []))"

text \<open>The two parts pushed for the logo, when it is truthy.\<close>

definition logoParts :: "string option \<Rightarrow> part list" where
  "logoParts logo =
     (case logo of
        None \<Rightarrow> []
      | Some l \<Rightarrow>
          (if truthy l then
             [InlineData ''image/png'' l,
              Text ''Integrate this logo into the image. Place it clearly (e.g. corner or branding area) without obstructing the main subject.'']
           else []))"

text \<open>\<open>referenceImages.forEach((ref, idx) => ...)\<close>, started at index \<open>idx\<close>.\<close>

fun referenceParts :: "nat \<Rightarrow> string list \<Rightarrow> part list" where
  "referenceParts idx [] = []"
| "referenceParts idx (ref # refs) =
     [InlineData ''image/png'' ref,
      Text (''Reference style/composition from image #'' @ toString (idx + 1) @ ''.'')]
     @ referenceParts (idx + 1) refs"

text \<open>The request that \<open>generateThumbnail\<close> hands to \<open>generateContent\<close>.\<close>

definition generateThumbnail_request ::
  "string \<Rightarrow> string \<Rightarrow> ImageSize \<Rightarrow> VideoFormat \<Rightarrow> string option \<Rightarrow> string list
     \<Rightarrow> string option \<Rightarrow> string option \<Rightarrow> request" where
  "generateThumbnail_request prompt title size' format headshot referenceImages logo brandColors =
     \<lparr> model = ''gemini-3-pro-image-preview'',
       parts = [Text (textPrompt prompt title format brandColors)]
               @ headshotParts format headshot
               @ logoParts logo
               @ referenceParts 0 referenceImages,
       cfg_imageSize = size',
       cfg_aspectRatio = aspectRatio format \<rparr>"

section \<open>The component \<open>CreatorStudio\<close>\<close>

text \<open>The state of the component: one field for each \<open>useState\<close> hook, under the hook's name.\<close>

record session =
  title :: string
  optimizedTitles :: "string list"
  prompt :: string
  imageSize :: ImageSize
  videoFormat :: VideoFormat
  headshot :: "upload option"
  logo :: "upload option"
  referenceImages :: "upload list"
  brandColors :: string
  generatedImage :: "GeneratedImage option"
  editPrompt :: string
  loadingState :: LoadingState
  error :: "string option"

text \<open>A call of the service layer, with the arguments the handler passes.\<close>

datatype service_call =
    OptimizeTitle string
  | GenerateThumbnail string string ImageSize VideoFormat "string option" "string list"
      "string option" "string option"
  | EditThumbnail string string

text \<open>
  A handler is an \<open>async\<close> function. It runs in two steps: the part up to the \<open>await\<close>
  (\<open>_start\<close>), which returns the updated state and the service call it has made, if any; and
  the part after the promise has settled (\<open>_settle\<close>). The second part reads \<open>prompt\<close>,
  \<open>videoFormat\<close> and the other state variables from the closure of the render the handler
  was created in (the state \<open>c\<close>), and its setters act on the state \<open>s\<close> the component
  has at that moment. \<open>Date.now()\<close> is an argument, one for each reading.
\<close>

subsection \<open>\<open>handleTitleOptimize\<close>\<close>

definition handleTitleOptimize_start :: "session \<Rightarrow> session \<times> service_call option" where
  "handleTitleOptimize_start s =
     (if trim (title s) = [] then (s, None)
      else (s\<lparr>loadingState := OptimizingTitle, error := None\<rparr>, Some (OptimizeTitle (title s))))"

definition handleTitleOptimize_settle :: "string list settled \<Rightarrow> session \<Rightarrow> session" where
  "handleTitleOptimize_settle r s =
     (case r of
        Resolved suggestions \<Rightarrow> s\<lparr>optimizedTitles := suggestions\<rparr>
      | Rejected \<Rightarrow> s\<lparr>error := Some ''Failed to optimize title. Please try again.''\<rparr>)
     \<lparr>loadingState := Idle\<rparr>"

definition handleTitleOptimize :: "session \<Rightarrow> string list settled \<Rightarrow> session" where
  "handleTitleOptimize s r =
     (case handleTitleOptimize_start s of
        (s', None) \<Rightarrow> s'
      | (s', Some call) \<Rightarrow> handleTitleOptimize_settle r s')"

subsection \<open>\<open>handleGenerate\<close>\<close>

definition handleGenerate_start :: "session \<Rightarrow> session \<times> service_call option" where
  "handleGenerate_start s =
     (if trim (prompt s) = [] then
        (s\<lparr>error := Some ''Please enter a description or story for the image.''\<rparr>, None)
      else
        (let refData = map file_data (referenceImages s)
         in (s\<lparr>loadingState := GeneratingImage, error := None\<rparr>,
             Some (GenerateThumbnail (prompt s) (title s) (imageSize s) (videoFormat s)
                     (map_option file_data (headshot s)) refData
                     (map_option file_data (logo s)) (Some (brandColors s))))))"

definition handleGenerate_settle ::
  "session \<Rightarrow> string option settled \<Rightarrow> nat \<Rightarrow> nat \<Rightarrow> session \<Rightarrow> session" where
  "handleGenerate_settle c r now_id now_timestamp s =
     (case r of
        Resolved resultBase64 \<Rightarrow>
          (case resultBase64 of
             None \<Rightarrow> s\<lparr>error := Some ''No image generated.''\<rparr>
           | Some b \<Rightarrow>
               (if truthy b then
                  s\<lparr>generatedImage := Some
                      \<lparr> img_id = toString now_id,
                        img_data = b,
                        img_mimeType = ''image/png'',
                        img_prompt = prompt c,
                        img_timestamp = now_timestamp,
                        img_format = videoFormat c \<rparr>\<rparr>
                else s\<lparr>error := Some ''No image generated.''\<rparr>))
      | Rejected \<Rightarrow>
          s\<lparr>error := Some ''Generation failed. Try a simpler prompt or fewer references.''\<rparr>)
     \<lparr>loadingState := Idle\<rparr>"

definition handleGenerate :: "session \<Rightarrow> string option settled \<Rightarrow> nat \<Rightarrow> nat \<Rightarrow> session" where
  "handleGenerate s r now_id now_timestamp =
     (case handleGenerate_start s of
        (s', None) \<Rightarrow> s'
      | (s', Some call) \<Rightarrow> handleGenerate_settle s r now_id now_timestamp s')"

subsection \<open>\<open>handleEdit\<close>\<close>

definition handleEdit_start :: "session \<Rightarrow> session \<times> service_call option" where
  "handleEdit_start s =
     (case generatedImage s of
        None \<Rightarrow> (s, None)
      | Some g \<Rightarrow>
          (if trim (editPrompt s) = [] then (s, None)
           else (s\<lparr>loadingState := EditingImage, error := None\<rparr>,
                 Some (EditThumbnail (img_data g) (editPrompt s)))))"

definition handleEdit_settle :: "string option settled \<Rightarrow> nat \<Rightarrow> session \<Rightarrow> session" where
  "handleEdit_settle r now s =
     (case r of
        Resolved resultBase64 \<Rightarrow>
          (case resultBase64 of
             None \<Rightarrow> s
           | Some b \<Rightarrow>
               (if truthy b then
                  s\<lparr>generatedImage :=
                       (case generatedImage s of
                          Some prev \<Rightarrow> Some (prev\<lparr>img_data := b, img_id := toString now\<rparr>)
                        | None \<Rightarrow> None),
                    editPrompt := []\<rparr>
                else s))
      | Rejected \<Rightarrow> s\<lparr>error := Some ''Editing failed.''\<rparr>)
     \<lparr>loadingState := Idle\<rparr>"

definition handleEdit :: "session \<Rightarrow> string option settled \<Rightarrow> nat \<Rightarrow> session" where
  "handleEdit s r now =
     (case handleEdit_start s of
        (s', None) \<Rightarrow> s'
      | (s', Some call) \<Rightarrow> handleEdit_settle r now s')"

subsection \<open>The generate button\<close>

text \<open>
  \<open><button onClick={handleGenerate} disabled={loadingState !== 'idle' || !prompt}>\<close>: a
  disabled button delivers no click, so the handler does not run.
\<close>

definition generateButton_disabled :: "session \<Rightarrow> bool" where
  "generateButton_disabled s = (loadingState s \<noteq> Idle \<or> \<not> truthy (prompt s))"

definition generateButton_click :: "session \<Rightarrow> session \<times> service_call option" where
  "generateButton_click s =
     (if generateButton_disabled s then (s, None) else handleGenerate_start s)"

text \<open>A state of the component used in the examples below.\<close>

definition studio :: session where
  "studio =
     \<lparr> title = ''My Trip to Japan'',
       optimizedTitles = [],
       prompt = ''sunset over mountains'',
       imageSize = Size1K,
       videoFormat = Shorts,
       headshot = None,
       logo = None,
       referenceImages = [],
       brandColors = [],
       generatedImage = Some
         \<lparr> img_id = ''1700000000000'',
           img_data = ''iVBORw0KGgo='',
           img_mimeType = ''image/png'',
           img_prompt = ''a city at night'',
           img_timestamp = 1700000000000,
           img_format = LongForm \<rparr>,
       editPrompt = ''add retro filter'',
       loadingState = Idle,
       error = Some ''No image generated.'' \<rparr>"

section \<open>Auxiliary facts\<close>

lemma dropWhile_all: "(\<forall>x\<in>set (dropWhile P s). P x) = (\<forall>x\<in>set s. P x)"
  by (induction s) auto

text \<open>\<open>!s.trim()\<close> holds exactly of the strings made of white space only, the empty one included.\<close>

lemma trim_empty_iff: "trim s = [] \<longleftrightarrow> list_all isWhiteSpace s"
  by (simp add: trim_def dropWhile_eq_Nil_conv list_all_iff dropWhile_all)

lemma toString_small: "n < 10 \<Longrightarrow> toString n = [digitChar n]"
  by (subst toString.simps) simp

lemma toString_large: "\<not> n < 10 \<Longrightarrow> toString n = toString (n div 10) @ [digitChar (n mod 10)]"
  by (subst toString.simps) simp

lemma toString_not_Nil: "toString n \<noteq> []"
  by (subst toString.simps) simp

lemma digitChar_inj: "a < 10 \<Longrightarrow> b < 10 \<Longrightarrow> digitChar a = digitChar b \<Longrightarrow> a = b"
proof -
  assume a: "a < 10" and b: "b < 10" and e: "digitChar a = digitChar b"
  have A: "a \<in> {0,1,2,3,4,5,6,7,8,9}" using a by auto
  have B: "b \<in> {0,1,2,3,4,5,6,7,8,9}" using b by auto
  show ?thesis using A B e by (auto simp: digitChar_def)
qed

text \<open>Two different numbers have different decimal renderings.\<close>

lemma toString_inj: "toString n = toString m \<Longrightarrow> n = m"
proof (induction n arbitrary: m rule: toString.induct)
  case (1 n)
  show ?case
  proof (cases "n < 10")
    case n: True
    show ?thesis
    proof (cases "m < 10")
      case True
      with n "1.prems" have "digitChar n = digitChar m"
        by (simp add: toString_small)
      with n True show ?thesis by (rule digitChar_inj)
    next
      case False
      with n "1.prems" have "toString (m div 10) = []"
        by (simp add: toString_small toString_large)
      then show ?thesis by (simp add: toString_not_Nil)
    qed
  next
    case n: False
    show ?thesis
    proof (cases "m < 10")
      case True
      with n "1.prems" have "toString (n div 10) = []"
        by (simp add: toString_small toString_large)
      then show ?thesis by (simp add: toString_not_Nil)
    next
      case False
      with n "1.prems" have e: "toString (n div 10) = toString (m div 10)"
        and d: "digitChar (n mod 10) = digitChar (m mod 10)"
        by (simp_all add: toString_large)
      from "1.IH"[OF n e] have "n div 10 = m div 10" .
      moreover from d have "n mod 10 = m mod 10" by (intro digitChar_inj) simp_all
      ultimately show ?thesis by (metis div_mult_mod_eq)
    qed
  qed
qed

text \<open>The loop over the references, written by position: the reference at index \<open>i\<close> gets
  the number \<open>k + i + 1\<close> when the loop starts at \<open>k\<close>.\<close>

lemma referenceParts_index:
  "referenceParts k rs =
     concat (map (\<lambda>i. [InlineData ''image/png'' (rs ! i),
                        Text (''Reference style/composition from image #''
                              @ toString (k + i + 1) @ ''.'')])
                 [0..<length rs])"
proof (induction rs arbitrary: k)
  case Nil
  show ?case by simp
next
  case (Cons r rs)
  have "[0..<length (r # rs)] = 0 # map Suc [0..<length rs]"
    by (simp add: upt_conv_Cons map_Suc_upt del: upt_Suc)
  then show ?case
    by (simp add: Cons.IH[of "Suc k"] comp_def del: upt_Suc)
qed

section \<open>The claims\<close>

text \<open>
  C1. An artifact exists, the edit instruction is "add retro filter", and \<open>editThumbnail\<close>
  resolves with \<open>null\<close>. The claim expects the error message "Editing failed."; the artifact
  and the edit instruction are to stay as they are. Evaluated on the code: the artifact and
  the edit instruction do stay, but the handler has no branch for a falsy result, so the
  error it cleared when it started stays \<open>null\<close>. (\<open>handleGenerate\<close> has that branch:
  it reports "No image generated.".)
\<close>

theorem handleEdit_null_result_sets_no_error:
  "handleEdit studio (Resolved None) 1700000005000 = studio\<lparr>error := None\<rparr>
   \<and> error (handleEdit studio (Resolved None) 1700000005000) \<noteq> Some ''Editing failed.''"
  by (simp add: handleEdit_def handleEdit_start_def handleEdit_settle_def studio_def trim_def
      isWhiteSpace_def)

text \<open>
  C2, as stated: the start of an operation leaves a recorded error message as it is. It does
  not: in a state that holds the message "No image generated.", each of the three handlers,
  started, has replaced it by \<open>null\<close> before the service answers.
\<close>

theorem error_kept_at_start_counterexample:
  "error studio = Some ''No image generated.''
   \<and> error (fst (handleTitleOptimize_start studio)) \<noteq> error studio
   \<and> error (fst (handleGenerate_start studio)) \<noteq> error studio
   \<and> error (fst (handleEdit_start studio)) \<noteq> error studio"
  by (simp add: handleTitleOptimize_start_def handleGenerate_start_def handleEdit_start_def
      studio_def trim_def isWhiteSpace_def)

text \<open>
  C2, amended: an operation that passes its handler's precondition (a title, a prompt or an
  edit instruction that is not white space only and, for the edit, an existing artifact)
  clears the error message when it starts: it sets the workflow state, resets the error to
  \<open>null\<close> and makes its service call.
\<close>

theorem start_clears_error:
  "(\<not> list_all isWhiteSpace (title s) \<longrightarrow>
      handleTitleOptimize_start s
        = (s\<lparr>loadingState := OptimizingTitle, error := None\<rparr>, Some (OptimizeTitle (title s))))
   \<and> (\<not> list_all isWhiteSpace (prompt s) \<longrightarrow>
      error (fst (handleGenerate_start s)) = None
      \<and> loadingState (fst (handleGenerate_start s)) = GeneratingImage
      \<and> snd (handleGenerate_start s) \<noteq> None)
   \<and> (generatedImage s \<noteq> None \<and> \<not> list_all isWhiteSpace (editPrompt s) \<longrightarrow>
      handleEdit_start s
        = (s\<lparr>loadingState := EditingImage, error := None\<rparr>,
           Some (EditThumbnail (img_data (the (generatedImage s))) (editPrompt s))))"
  by (auto simp: handleTitleOptimize_start_def handleGenerate_start_def handleEdit_start_def
      trim_empty_iff Let_def)

theorem start_clears_error_witness:
  "\<not> list_all isWhiteSpace (title studio) \<and> \<not> list_all isWhiteSpace (prompt studio)
   \<and> generatedImage studio \<noteq> None \<and> \<not> list_all isWhiteSpace (editPrompt studio)
   \<and> error studio \<noteq> None
   \<and> error (fst (handleTitleOptimize_start studio)) = None
   \<and> error (fst (handleGenerate_start studio)) = None
   \<and> error (fst (handleEdit_start studio)) = None"
  using start_clears_error [of studio]
  by (simp add: studio_def isWhiteSpace_def)

text \<open>
  C3. In every state whose prompt is empty or made of white space only, \<open>handleGenerate\<close>
  sets the error message to "Please enter a description or story for the image.", makes no
  service call, and changes nothing else: the workflow state is the one it was (Idle stays
  Idle) and the artifact is untouched, whatever the service would have answered.
\<close>

theorem generate_rejects_blank_prompt:
  assumes "list_all isWhiteSpace (prompt s)"
  shows "handleGenerate_start s
           = (s\<lparr>error := Some ''Please enter a description or story for the image.''\<rparr>, None)
         \<and> handleGenerate s r now_id now_timestamp
           = s\<lparr>error := Some ''Please enter a description or story for the image.''\<rparr>
         \<and> loadingState (handleGenerate s r now_id now_timestamp) = loadingState s
         \<and> generatedImage (handleGenerate s r now_id now_timestamp) = generatedImage s"
  using assms by (simp add: handleGenerate_def handleGenerate_start_def trim_empty_iff)

theorem generate_rejects_blank_prompt_witness:
  "list_all isWhiteSpace (prompt (studio\<lparr>prompt := '' \<newline> ''\<rparr>))
   \<and> snd (handleGenerate_start (studio\<lparr>prompt := '' \<newline> ''\<rparr>)) = None
   \<and> error (handleGenerate (studio\<lparr>prompt := '' \<newline> ''\<rparr>) (Resolved (Some ''QUJD'')) 5 6)
       = Some ''Please enter a description or story for the image.''
   \<and> loadingState (handleGenerate (studio\<lparr>prompt := '' \<newline> ''\<rparr>) (Resolved (Some ''QUJD'')) 5 6) = Idle
   \<and> generatedImage (handleGenerate (studio\<lparr>prompt := '' \<newline> ''\<rparr>) (Resolved (Some ''QUJD'')) 5 6)
       = generatedImage studio
   \<and> list_all isWhiteSpace (prompt (studio\<lparr>prompt := []\<rparr>))
   \<and> handleGenerate (studio\<lparr>prompt := []\<rparr>) Rejected 5 6
       = studio\<lparr>prompt := [], error := Some ''Please enter a description or story for the image.''\<rparr>"
  using generate_rejects_blank_prompt [of "studio\<lparr>prompt := '' \<newline> ''\<rparr>" "Resolved (Some ''QUJD'')" 5 6]
    generate_rejects_blank_prompt [of "studio\<lparr>prompt := []\<rparr>" Rejected 5 6]
  by (simp add: studio_def isWhiteSpace_def)

text \<open>
  C4. The aspect ratio of the request is "16:9" for the long form, "9:16" for shorts and
  "1:1" for the Facebook post, and two requests built for the same format carry the same
  aspect ratio, whatever the prompt, the title, the quality tier and the images are.
\<close>

theorem aspect_ratio_by_format:
  "cfg_aspectRatio (generateThumbnail_request p t q f h rs l b)
     = (case f of LongForm \<Rightarrow> ''16:9'' | Shorts \<Rightarrow> ''9:16'' | Facebook \<Rightarrow> ''1:1'')
   \<and> cfg_aspectRatio (generateThumbnail_request p t q f h rs l b)
     = cfg_aspectRatio (generateThumbnail_request p' t' q' f h' rs' l' b')"
  by (cases f) (simp_all add: generateThumbnail_request_def aspectRatio_def isShorts_def
      isFacebook_def)

theorem aspect_ratio_by_format_witness:
  "cfg_aspectRatio (generateThumbnail_request ''sunset'' ''Japan'' Size4K Shorts (Some ''H'')
       [''R1'', ''R2''] (Some ''L'') (Some ''red'')) = ''9:16''
   \<and> cfg_aspectRatio (generateThumbnail_request ''sunset'' ''Japan'' Size4K Shorts (Some ''H'')
       [''R1'', ''R2''] (Some ''L'') (Some ''red''))
     = cfg_aspectRatio (generateThumbnail_request [] [] Size1K Shorts None [] None None)"
  using aspect_ratio_by_format [of "''sunset''" "''Japan''" Size4K Shorts "Some ''H''"
      "[''R1'', ''R2'']" "Some ''L''" "Some ''red''" "[]" "[]" Size1K None "[]" None None]
  by auto

text \<open>
  C5. The parts of the request are the text prompt and then, in this order: the headshot
  and its caption, the logo and its caption, and each reference image, in input order, with
  the caption "Reference style/composition from image #N.", where N is one more than the
  index of the reference in the list. An optional image is present when it is supplied and
  is not the empty string (the code tests \<open>if (headshot)\<close>, \<open>if (logo)\<close>); when it is
  absent its two parts are left out and nothing else changes: the numbering of the
  references depends on neither the headshot nor the logo.
\<close>

theorem attachment_sequence:
  "parts (generateThumbnail_request p t q f h rs l b) =
     Text (textPrompt p t f b)
     # (if truthy_opt h
        then [InlineData ''image/png'' (the h),
              Text (''Use the person in this image as the main subject in the ''
                    @ (if f = Facebook then ''image'' else ''thumbnail'')
                    @ ''. Integrate them naturally matching the lighting and style.'')]
        else [])
     @ (if truthy_opt l
        then [InlineData ''image/png'' (the l),
              Text ''Integrate this logo into the image. Place it clearly (e.g. corner or branding area) without obstructing the main subject.'']
        else [])
     @ concat (map (\<lambda>i. [InlineData ''image/png'' (rs ! i),
                          Text (''Reference style/composition from image #''
                                @ toString (i + 1) @ ''.'')])
                   [0..<length rs])"
proof -
  have hs: "headshotParts f h =
     (if truthy_opt h
        then [InlineData ''image/png'' (the h),
              Text (''Use the person in this image as the main subject in the ''
                    @ (if f = Facebook then ''image'' else ''thumbnail'')
                    @ ''. Integrate them naturally matching the lighting and style.'')]
        else [])"
    by (cases h) (simp_all add: headshotParts_def isFacebook_def)
  have lg: "logoParts l =
     (if truthy_opt l
        then [InlineData ''image/png'' (the l),
              Text ''Integrate this logo into the image. Place it clearly (e.g. corner or branding area) without obstructing the main subject.'']
        else [])"
    by (cases l) (simp_all add: logoParts_def)
  have "parts (generateThumbnail_request p t q f h rs l b)
          = Text (textPrompt p t f b) # headshotParts f h @ logoParts l @ referenceParts 0 rs"
    by (simp add: generateThumbnail_request_def)
  then show ?thesis
    by (simp only: hs lg referenceParts_index [of 0 rs] add_0)
qed

theorem attachment_sequence_witness:
  "parts (generateThumbnail_request ''sunset'' ''Japan'' Size1K LongForm (Some ''S'')
            [''R1'', ''R2''] (Some ''L'') None)
     = [Text (textPrompt ''sunset'' ''Japan'' LongForm None),
        InlineData ''image/png'' ''S'',
        Text ''Use the person in this image as the main subject in the thumbnail. Integrate them naturally matching the lighting and style.'',
        InlineData ''image/png'' ''L'',
        Text ''Integrate this logo into the image. Place it clearly (e.g. corner or branding area) without obstructing the main subject.'',
        InlineData ''image/png'' ''R1'',
        Text ''Reference style/composition from image #1.'',
        InlineData ''image/png'' ''R2'',
        Text ''Reference style/composition from image #2.'']
   \<and> parts (generateThumbnail_request ''sunset'' ''Japan'' Size1K Facebook None
            [''R1'', ''R2''] None None)
     = [Text (textPrompt ''sunset'' ''Japan'' Facebook None),
        InlineData ''image/png'' ''R1'',
        Text ''Reference style/composition from image #1.'',
        InlineData ''image/png'' ''R2'',
        Text ''Reference style/composition from image #2.'']"
  using attachment_sequence [of "''sunset''" "''Japan''" Size1K LongForm "Some ''S''"
      "[''R1'', ''R2'']" "Some ''L''" None]
    attachment_sequence [of "''sunset''" "''Japan''" Size1K Facebook None
      "[''R1'', ''R2'']" None None]
  by (simp add: truthy_def toString_small digitChar_def upt_conv_Cons)

text \<open>
  The service is called exactly when the prompt is not made of white space only.
\<close>

lemma handleGenerate_calls_iff:
  "snd (handleGenerate_start s) \<noteq> None \<longleftrightarrow> \<not> list_all isWhiteSpace (prompt s)"
  by (simp add: handleGenerate_start_def trim_empty_iff Let_def)

text \<open>
  C7, as stated: whenever the prompt is not empty and the service answers with image data
  that is not \<open>null\<close>, a new artifact holds that data. It fails for the empty string, which
  is not \<open>null\<close> but is falsy for \<open>if (resultBase64)\<close>: the previous artifact stays and the
  error message is "No image generated.".
\<close>

theorem empty_result_creates_no_artifact_counterexample:
  "prompt studio \<noteq> []
   \<and> snd (handleGenerate_start studio) \<noteq> None
   \<and> generatedImage (handleGenerate studio (Resolved (Some [])) 1700000005000 1700000005001)
       = generatedImage studio
   \<and> map_option img_data
        (generatedImage (handleGenerate studio (Resolved (Some [])) 1700000005000 1700000005001))
       \<noteq> Some []
   \<and> error (handleGenerate studio (Resolved (Some [])) 1700000005000 1700000005001)
       = Some ''No image generated.''"
  by (simp add: handleGenerate_def handleGenerate_start_def handleGenerate_settle_def
      studio_def trim_def isWhiteSpace_def truthy_def)

text \<open>
  C7, amended: when the prompt is not empty, the call is made, and the service answers with
  image data \<open>b\<close> that is neither \<open>null\<close> nor empty, the artifact of the session is a new
  one: its data is \<open>b\<close>, its format and its prompt are those of the state in which the
  request was made (not those of the state at the time of the answer), its id is the
  decimal rendering of the clock at the time of the answer, and nothing of the previous
  artifact remains. Two different clock readings give two different ids.
\<close>

theorem generate_success_replaces_artifact:
  assumes "prompt c \<noteq> []" and "snd (handleGenerate_start c) \<noteq> None" and "b \<noteq> []"
  shows "handleGenerate_settle c (Resolved (Some b)) now_id now_timestamp s
           = s\<lparr>generatedImage := Some
                  \<lparr> img_id = toString now_id, img_data = b, img_mimeType = ''image/png'',
                    img_prompt = prompt c, img_timestamp = now_timestamp,
                    img_format = videoFormat c \<rparr>,
                loadingState := Idle\<rparr>
         \<and> handleGenerate c (Resolved (Some b)) now_id now_timestamp
           = c\<lparr>error := None,
                generatedImage := Some
                  \<lparr> img_id = toString now_id, img_data = b, img_mimeType = ''image/png'',
                    img_prompt = prompt c, img_timestamp = now_timestamp,
                    img_format = videoFormat c \<rparr>,
                loadingState := Idle\<rparr>
         \<and> (toString now_id = toString n \<longrightarrow> now_id = n)"
  using assms
  by (auto simp: handleGenerate_def handleGenerate_start_def handleGenerate_settle_def
      truthy_def Let_def dest: toString_inj split: if_splits)

theorem generate_success_replaces_artifact_witness:
  "prompt studio \<noteq> [] \<and> snd (handleGenerate_start studio) \<noteq> None \<and> ''QUJD'' \<noteq> []
   \<and> videoFormat studio = Shorts
   \<and> generatedImage (handleGenerate_settle studio (Resolved (Some ''QUJD'')) 1700000005000
         1700000005001 (studio\<lparr>videoFormat := Facebook, loadingState := GeneratingImage\<rparr>))
       = Some \<lparr> img_id = ''1700000005000'', img_data = ''QUJD'', img_mimeType = ''image/png'',
                 img_prompt = ''sunset over mountains'', img_timestamp = 1700000005001,
                 img_format = Shorts \<rparr>
   \<and> generatedImage (handleGenerate studio (Resolved (Some ''QUJD'')) 1700000005000
         1700000005001)
       = Some \<lparr> img_id = ''1700000005000'', img_data = ''QUJD'', img_mimeType = ''image/png'',
                 img_prompt = ''sunset over mountains'', img_timestamp = 1700000005001,
                 img_format = Shorts \<rparr>"
proof -
  have ts: "toString 1700000005000 = ''1700000005000''"
    by (simp add: toString_small toString_large digitChar_def)
  have p: "prompt studio \<noteq> []"
    by (simp add: studio_def)
  have call: "snd (handleGenerate_start studio) \<noteq> None"
    unfolding handleGenerate_calls_iff by (simp add: studio_def isWhiteSpace_def)
  have b: "''QUJD'' \<noteq> []"
    by simp
  have fields: "prompt studio = ''sunset over mountains''" "videoFormat studio = Shorts"
    by (simp_all add: studio_def)
  note run = generate_success_replaces_artifact [OF p call b, of 1700000005000 1700000005001
      "studio\<lparr>videoFormat := Facebook, loadingState := GeneratingImage\<rparr>" 0]
  show ?thesis
    using p call by (simp add: run ts fields)
qed

text \<open>
  C8. Each of the three operations ends with the workflow state Idle, however the promise
  settles (a value, \<open>null\<close> or an empty list, a rejection) and whatever the state is at that
  moment; and a handler run from an Idle state ends in an Idle state, also when its
  precondition fails and it makes no call.
\<close>

theorem operations_end_Idle:
  "loadingState (handleTitleOptimize_settle rt s') = Idle
   \<and> loadingState (handleGenerate_settle c rg now_id now_timestamp s') = Idle
   \<and> loadingState (handleEdit_settle re now s') = Idle
   \<and> (loadingState s = Idle \<longrightarrow>
        loadingState (handleTitleOptimize s rt) = Idle
        \<and> loadingState (handleGenerate s rg now_id now_timestamp) = Idle
        \<and> loadingState (handleEdit s re now) = Idle)"
  by (auto simp: handleTitleOptimize_def handleTitleOptimize_start_def
      handleTitleOptimize_settle_def handleGenerate_def handleGenerate_start_def
      handleGenerate_settle_def handleEdit_def handleEdit_start_def handleEdit_settle_def
      Let_def split: settled.splits option.splits)

theorem operations_end_Idle_witness:
  "loadingState studio = Idle
   \<and> loadingState (fst (handleGenerate_start studio)) = GeneratingImage
   \<and> loadingState (handleTitleOptimize studio Rejected) = Idle
   \<and> loadingState (handleGenerate studio (Resolved None) 5 6) = Idle
   \<and> loadingState (handleEdit studio (Resolved (Some ''QUJD'')) 7) = Idle
   \<and> loadingState (handleEdit_settle Rejected 7 (studio\<lparr>loadingState := EditingImage\<rparr>)) = Idle"
proof -
  have idle: "loadingState studio = Idle"
    by (simp add: studio_def)
  have busy: "loadingState (fst (handleGenerate_start studio)) = GeneratingImage"
    by (simp add: handleGenerate_start_def studio_def trim_def isWhiteSpace_def)
  note t1 = operations_end_Idle [of Rejected studio studio "Resolved None" 5 6
      "Resolved (Some ''QUJD'')" 7 studio]
  note t2 = operations_end_Idle [of Rejected "studio\<lparr>loadingState := EditingImage\<rparr>" studio
      "Resolved None" 5 6 Rejected 7 studio]
  show ?thesis
    using idle busy t1 t2 by simp
qed

text \<open>
  C9. While the workflow state is not Idle the generate button is disabled, so a click on
  it changes nothing (workflow state, artifact and error message included) and makes no
  service call.
\<close>

theorem generate_ignored_while_busy:
  assumes "loadingState s \<noteq> Idle"
  shows "generateButton_click s = (s, None)"
  using assms by (simp add: generateButton_click_def generateButton_disabled_def)

theorem generate_ignored_while_busy_witness:
  "loadingState (studio\<lparr>loadingState := EditingImage\<rparr>) \<noteq> Idle
   \<and> generateButton_click (studio\<lparr>loadingState := EditingImage\<rparr>)
       = (studio\<lparr>loadingState := EditingImage\<rparr>, None)"
  using generate_ignored_while_busy [of "studio\<lparr>loadingState := EditingImage\<rparr>"]
  by simp

text \<open>
  C10. When the generation call is rejected or resolves with \<open>null\<close>, the handler changes
  the error message and the workflow state only: the artifact held when the promise settles
  is the one held afterwards, and a run of the handler from an Idle state changes nothing
  but the error message.
\<close>

theorem failed_generation_keeps_artifact:
  assumes "r = Rejected \<or> r = Resolved None"
  shows "handleGenerate_settle c r now_id now_timestamp s'
           = s'\<lparr>error := Some (if r = Rejected
                                 then ''Generation failed. Try a simpler prompt or fewer references.''
                                 else ''No image generated.''),
                 loadingState := Idle\<rparr>
         \<and> generatedImage (handleGenerate_settle c r now_id now_timestamp s') = generatedImage s'
         \<and> generatedImage (handleGenerate s r now_id now_timestamp) = generatedImage s
         \<and> (loadingState s = Idle \<longrightarrow>
              handleGenerate s r now_id now_timestamp
                = s\<lparr>error := error (handleGenerate s r now_id now_timestamp)\<rparr>)"
  using assms
  by (auto simp: handleGenerate_def handleGenerate_start_def handleGenerate_settle_def Let_def)

theorem failed_generation_keeps_artifact_witness:
  "generatedImage studio \<noteq> None
   \<and> generatedImage (handleGenerate studio Rejected 5 6) = generatedImage studio
   \<and> generatedImage (handleGenerate studio (Resolved None) 5 6) = generatedImage studio
   \<and> handleGenerate_settle studio Rejected 5 6 (studio\<lparr>loadingState := GeneratingImage\<rparr>)
       = studio\<lparr>loadingState := GeneratingImage,
                  error := Some ''Generation failed. Try a simpler prompt or fewer references.'',
                  loadingState := Idle\<rparr>
   \<and> handleGenerate_settle studio (Resolved None) 5 6 (studio\<lparr>loadingState := GeneratingImage\<rparr>)
       = studio\<lparr>loadingState := GeneratingImage, error := Some ''No image generated.'',
                  loadingState := Idle\<rparr>"
proof -
  have g: "generatedImage studio \<noteq> None"
    by (simp add: studio_def)
  have r1: "Rejected = Rejected \<or> Rejected = Resolved (None :: string option)"
    by simp
  have r2: "Resolved None = Rejected \<or> Resolved None = Resolved (None :: string option)"
    by simp
  note t1 = failed_generation_keeps_artifact [OF r1, of studio 5 6
      "studio\<lparr>loadingState := GeneratingImage\<rparr>" studio]
  note t2 = failed_generation_keeps_artifact [OF r2, of studio 5 6
      "studio\<lparr>loadingState := GeneratingImage\<rparr>" studio]
  show ?thesis
    using g t1 t2 by simp
qed

end
